theory Spec2Isabelle
  imports Main "HOL-Library.Multiset"
begin

section \<open>Network tools: a shallow embedding of \<^verbatim>\<open>src/tools/network.py\<close>\<close>

text \<open>
  The library calls of the source (\<^verbatim>\<open>int\<close>, the conversion of an integer in an f-string,
  \<^verbatim>\<open>ThreadPoolExecutor\<close>, \<^verbatim>\<open>subprocess.run\<close>) are modelled as CPython 3.11 runs
  them with its default settings.
\<close>

subsection \<open>Python values, exceptions and the \<^verbatim>\<open>int()\<close> coercion\<close>

text \<open>
  The elements of the \<^verbatim>\<open>ports\<close> argument are dynamically typed. The model covers
  integers, \<^verbatim>\<open>None\<close>, and the strings whose code points are below 256: such a string
  is the list of its code points, one \<^typ>\<open>char\<close> each. Floats are outside the model.
\<close>

datatype pyval = PyInt int | PyStr string | PyNone

text \<open>
  The exceptions that can leave \<^verbatim>\<open>scan_ports\<close>. \<open>ValueError m\<close> is a
  \<^verbatim>\<open>ValueError\<close> carrying the message \<open>m\<close> (the two raised by the source itself,
  the one of the \<^verbatim>\<open>ThreadPoolExecutor\<close> constructor, and the one of formatting an
  integer that is too long). \<open>RuntimeError m\<close> is the \<^verbatim>\<open>RuntimeError\<close> of
  \<^verbatim>\<open>exe.submit\<close>. \<open>ValueError_of_int s\<close> is the \<^verbatim>\<open>ValueError\<close> that \<^verbatim>\<open>int(s)\<close>
  raises for a string that is no integer literal or has too many digits, and
  \<open>TypeError_of_int\<close> is the \<^verbatim>\<open>TypeError\<close> of \<^verbatim>\<open>int(None)\<close>; the message texts the
  interpreter builds for these two are not modelled.
\<close>

datatype error =
  ValueError string | RuntimeError string | ValueError_of_int string | TypeError_of_int

text \<open>
  The interpreter's limit on the number of decimal digits in a conversion between
  \<^verbatim>\<open>int\<close> and \<^verbatim>\<open>str\<close> (\<^verbatim>\<open>sys.get_int_max_str_digits()\<close>, 4300 unless changed).
\<close>

definition int_max_str_digits :: nat where
  "int_max_str_digits = 4300"

text \<open>
  The blanks that \<^verbatim>\<open>int\<close> drops around a literal: the six ASCII blanks, and the two
  blanks among the code points from 128 to 255 (U+0085 and U+00A0).
\<close>

definition is_space :: "char \<Rightarrow> bool" where
  "is_space c =
     (c \<in> set [CHR 0x09, CHR 0x0A, CHR 0x0B, CHR 0x0C, CHR 0x0D, CHR 0x20, CHR 0x85, CHR 0xA0])"

definition is_digit :: "char \<Rightarrow> bool" where
  "is_digit c = ((48::nat) \<le> of_char c \<and> of_char c \<le> (57::nat))"

definition digit_val :: "char \<Rightarrow> nat" where
  "digit_val c = of_char c - (48::nat)"

definition strip :: "string \<Rightarrow> string" where
  "strip s = rev (dropWhile is_space (rev (dropWhile is_space s)))"

text \<open>
  Decimal digits after the first one; a single underscore may stand between two digits.
\<close>

fun more_digits :: "nat \<Rightarrow> string \<Rightarrow> nat option" where
  "more_digits acc [] = Some acc"
| "more_digits acc [c] = (if is_digit c then Some (10 * acc + digit_val c) else None)"
| "more_digits acc (c # d # cs) =
     (if is_digit c then more_digits (10 * acc + digit_val c) (d # cs)
      else if c = CHR ''_'' \<and> is_digit d then more_digits (10 * acc + digit_val d) cs
      else None)"

text \<open>A literal without its sign; more digits than the limit allows are refused.\<close>

definition digits :: "string \<Rightarrow> nat option" where
  "digits s =
     (if int_max_str_digits < length (filter is_digit s) then None
      else case s of
             [] \<Rightarrow> None
           | c # cs \<Rightarrow> if is_digit c then more_digits (digit_val c) cs else None)"

text \<open>
  \<^verbatim>\<open>int(s)\<close> in base 10: surrounding blanks are dropped, then an optional sign, then
  digits. \<open>None\<close> stands for the \<^verbatim>\<open>ValueError\<close>.
\<close>

definition int_literal :: "string \<Rightarrow> int option" where
  "int_literal s =
     (case strip s of
        [] \<Rightarrow> None
      | c # cs \<Rightarrow>
          if c = CHR ''-'' then map_option (\<lambda>n. - int n) (digits cs)
          else if c = CHR ''+'' then map_option int (digits cs)
          else map_option int (digits (c # cs)))"

definition py_int :: "pyval \<Rightarrow> error + int" where
  "py_int v =
     (case v of
        PyInt i \<Rightarrow> Inr i
      | PyStr s \<Rightarrow> (case int_literal s of None \<Rightarrow> Inl (ValueError_of_int s) | Some i \<Rightarrow> Inr i)
      | PyNone \<Rightarrow> Inl TypeError_of_int)"

text \<open>
  \<^verbatim>\<open>[int(p) for p in ports]\<close>: the elements are coerced from left to right and the first
  failure leaves the comprehension.
\<close>

fun int_all :: "pyval list \<Rightarrow> error + int list" where
  "int_all [] = Inr []"
| "int_all (p # ps) =
     (case py_int p of
        Inl e \<Rightarrow> Inl e
      | Inr i \<Rightarrow> (case int_all ps of Inl e \<Rightarrow> Inl e | Inr js \<Rightarrow> Inr (i # js)))"

subsection \<open>Formatting an integer in an f-string\<close>

text \<open>The decimal digits of a natural number, and the decimal numeral of an integer.\<close>

function decimal_nat :: "nat \<Rightarrow> string" where
  "decimal_nat n =
     (if n < 10 then [char_of (48 + n)]
      else decimal_nat (n div 10) @ [char_of (48 + n mod 10)])"
  by pat_completeness auto
termination
  by (relation "measure (\<lambda>n. n)") auto

definition decimal :: "int \<Rightarrow> string" where
  "decimal i = (if i < 0 then CHR ''-'' # decimal_nat (nat (- i)) else decimal_nat (nat i))"

text \<open>
  \<^verbatim>\<open>str(i)\<close>, which is what \<^verbatim>\<open>{port}\<close> and \<^verbatim>\<open>{p}\<close> in the f-strings of lines 133 and
  137 call: an integer with more digits than the limit raises \<^verbatim>\<open>ValueError\<close> with the
  message \<open>exceeds_limit\<close>; \<open>None\<close> stands for that exception.
\<close>

definition printable :: "int \<Rightarrow> bool" where
  "printable i = (length (decimal_nat (nat \<bar>i\<bar>)) \<le> int_max_str_digits)"

definition exceeds_limit :: string where
  "exceeds_limit =
     ''Exceeds the limit (4300 digits) for integer string conversion; '' @
     ''use sys.set_int_max_str_digits() to increase the limit''"

definition str_int :: "int \<Rightarrow> string option" where
  "str_int i = (if printable i then Some (decimal i) else None)"

text \<open>\<^verbatim>\<open>{err}\<close> in an f-string, for a value that is a string or \<^verbatim>\<open>None\<close>.\<close>

definition str_opt :: "string option \<Rightarrow> string" where
  "str_opt err = (case err of None \<Rightarrow> ''None'' | Some s \<Rightarrow> s)"

subsection \<open>The environment of one scan\<close>

text \<open>
  What the body of \<^verbatim>\<open>probe\<close> meets: the \<^verbatim>\<open>with\<close> block runs to its
  \<^verbatim>\<open>return\<close>, or some statement in it (creating the socket, \<^verbatim>\<open>settimeout\<close>,
  \<^verbatim>\<open>connect\<close>, closing) raises an \<^verbatim>\<open>Exception\<close> whose \<^verbatim>\<open>str\<close> is the given text.
\<close>

datatype conn = Connected | Failed string

text \<open>
  The world of one call, indexed by the position of a future in submission order:
  whether the \<open>n\<close>-th call of \<^verbatim>\<open>exe.submit\<close> raises \<^verbatim>\<open>RuntimeError\<close> (with the given
  text) because no worker thread can be started, what the \<open>n\<close>-th probe's socket code
  does, whether \<^verbatim>\<open>fut.result()\<close> itself raises an \<^verbatim>\<open>Exception\<close> (with the given text)
  instead of handing over the probe's value, and the time at which the future completes.
  \<^verbatim>\<open>as_completed\<close> yields the futures by completion time. The timeout and the host act
  only through \<open>socket_of\<close>. The worlds are more than the real ones: a theorem about
  every world holds of every real run.
\<close>

record world =
  submit_error :: "nat \<Rightarrow> string option"
  socket_of :: "nat \<Rightarrow> conn"
  machinery :: "nat \<Rightarrow> string option"
  finish_time :: "nat \<Rightarrow> nat"

subsection \<open>\<^verbatim>\<open>scan_ports\<close>\<close>

record scan_result =
  target :: string
  open_ports :: "int list"
  closed_or_filtered :: "int list"
  errors :: "string list"

text \<open>Lines 93 to 104: the value of the variable \<^verbatim>\<open>ports_list\<close>, or the exception raised.\<close>

definition ports_list :: "pyval list option \<Rightarrow> (int \<times> int) option \<Rightarrow> error + int list" where
  "ports_list ports port_range =
     (if ports = None \<and> port_range = None
      then Inl (ValueError ''either 'ports' or 'port_range' must be provided'')
      else case ports of
             Some ps \<Rightarrow> int_all ps
           | None \<Rightarrow>
               (case port_range of
                  Some (start, end) \<Rightarrow>
                    if \<not> (1 \<le> start \<and> start \<le> 65535 \<and> 1 \<le> end \<and> end \<le> 65535 \<and> start \<le> end)
                    then Inl (ValueError ''invalid port_range; ports must be between 1 and 65535'')
                    else Inr [start..end]
                | None \<Rightarrow> Inl (ValueError ''either 'ports' or 'port_range' must be provided'')))"

text \<open>Lines 107 to 116: the worker.\<close>

definition probe :: "conn \<Rightarrow> int \<Rightarrow> int \<times> bool \<times> string option" where
  "probe c port = (case c of Connected \<Rightarrow> (port, True, None) | Failed exc \<Rightarrow> (port, False, Some exc))"

text \<open>\<^verbatim>\<open>fut.result()\<close> for the future with index \<open>i\<close>, submitted for \<open>port\<close>.\<close>

definition fut_result :: "world \<Rightarrow> nat \<Rightarrow> int \<Rightarrow> string + (int \<times> bool \<times> string option)" where
  "fut_result w i port =
     (case machinery w i of Some exc \<Rightarrow> Inl exc | None \<Rightarrow> Inr (probe (socket_of w i) port))"

text \<open>Python's truth value of \<^verbatim>\<open>err\<close>: \<^verbatim>\<open>None\<close> and the empty string are false.\<close>

definition truthy :: "string option \<Rightarrow> bool" where
  "truthy err = (case err of None \<Rightarrow> False | Some s \<Rightarrow> s \<noteq> [])"

text \<open>The three accumulators of lines 118 to 120.\<close>

record tally =
  t_open :: "int list"
  t_closed :: "int list"
  t_errors :: "string list"

definition empty_tally :: tally where
  "empty_tally = \<lparr>t_open = [], t_closed = [], t_errors = []\<rparr>"

text \<open>
  Lines 134 to 137: the handler, entered with the text of the exception caught. Line 136
  appends the port; the f-string of line 137 formats the port, and when that raises the
  exception leaves the loop and the call.
\<close>

definition handler :: "tally \<Rightarrow> int \<Rightarrow> string \<Rightarrow> error + tally" where
  "handler t p exc =
     (case str_int p of
        None \<Rightarrow> Inl (ValueError exceeds_limit)
      | Some sp \<Rightarrow>
          Inr (t\<lparr>t_closed := t_closed t @ [p],
                 t_errors := t_errors t @ [''port '' @ sp @ '': unexpected error '' @ exc]\<rparr>))"

text \<open>
  Lines 125 to 137: the body of the loop, for the future \<open>(i, p)\<close>. When the f-string
  of line 133 raises, line 130 has appended the port already and the handler runs.
\<close>

definition consume :: "world \<Rightarrow> tally \<Rightarrow> nat \<times> int \<Rightarrow> error + tally" where
  "consume w t fut =
     (case fut of (i, p) \<Rightarrow>
        (case fut_result w i p of
           Inr (port, is_open, err) \<Rightarrow>
             if is_open then Inr (t\<lparr>t_open := t_open t @ [port]\<rparr>)
             else if truthy err
               then (case str_int port of
                       Some sp \<Rightarrow>
                         Inr (t\<lparr>t_closed := t_closed t @ [port],
                                t_errors := t_errors t @ [''port '' @ sp @ '': '' @ str_opt err]\<rparr>)
                     | None \<Rightarrow> handler (t\<lparr>t_closed := t_closed t @ [port]\<rparr>) p exceeds_limit)
               else Inr (t\<lparr>t_closed := t_closed t @ [port]\<rparr>)
         | Inl exc \<Rightarrow> handler t p exc))"

text \<open>Line 124: the loop; an exception that leaves its body ends it.\<close>

fun consume_all :: "world \<Rightarrow> tally \<Rightarrow> (nat \<times> int) list \<Rightarrow> error + tally" where
  "consume_all w t [] = Inr t"
| "consume_all w t (f # fs) =
     (case consume w t f of Inl e \<Rightarrow> Inl e | Inr t' \<Rightarrow> consume_all w t' fs)"

text \<open>\<^verbatim>\<open>as_completed(futures)\<close>: every future once, by completion time.\<close>

definition as_completed :: "world \<Rightarrow> (nat \<times> int) list \<Rightarrow> (nat \<times> int) list" where
  "as_completed w futures = sort_key (\<lambda>f. finish_time w (fst f)) futures"

text \<open>
  \<^verbatim>\<open>list(dict.fromkeys(errors))\<close>: the keys of an insertion-ordered dictionary. A key that
  is already present keeps its place.
\<close>

fun fromkeys :: "'a list \<Rightarrow> 'a list \<Rightarrow> 'a list" where
  "fromkeys d [] = d"
| "fromkeys d (k # ks) = fromkeys (if k \<in> set d then d else d @ [k]) ks"

definition dict_fromkeys :: "'a list \<Rightarrow> 'a list" where
  "dict_fromkeys ks = fromkeys [] ks"

text \<open>
  Line 123: one future per entry of \<^verbatim>\<open>ports_list\<close>, in submission order. A future is
  identified by its position, so two entries with the same port are two futures.
\<close>

definition futures :: "int list \<Rightarrow> (nat \<times> int) list" where
  "futures pl = zip [0..<length pl] pl"

text \<open>
  The first call of \<^verbatim>\<open>exe.submit\<close> that raises, among the calls with the given
  positions: its position and the text of its \<^verbatim>\<open>RuntimeError\<close>.
\<close>

fun first_failure :: "(nat \<Rightarrow> string option) \<Rightarrow> nat list \<Rightarrow> (nat \<times> string) option" where
  "first_failure g [] = None"
| "first_failure g (i # js) =
     (case g i of Some msg \<Rightarrow> Some (i, msg) | None \<Rightarrow> first_failure g js)"

text \<open>
  One call: the ports that \<^verbatim>\<open>exe.submit\<close> was called with, in order, and what the
  call returns or raises. The constructor of \<^verbatim>\<open>ThreadPoolExecutor\<close> raises
  \<^verbatim>\<open>ValueError\<close> when \<^verbatim>\<open>max_workers\<close> is not positive. The comprehension of line 123
  is outside every \<^verbatim>\<open>try\<close>: a call of \<^verbatim>\<open>exe.submit\<close> that raises ends it and the
  call.
\<close>

record call =
  submitted :: "int list"
  returned :: "error + scan_result"

definition scan_ports ::
  "world \<Rightarrow> string \<Rightarrow> pyval list option \<Rightarrow> (int \<times> int) option \<Rightarrow> int \<Rightarrow> call" where
  "scan_ports w host ports port_range max_workers =
     (case ports_list ports port_range of
        Inl e \<Rightarrow> \<lparr>submitted = [], returned = Inl e\<rparr>
      | Inr pl \<Rightarrow>
          if max_workers \<le> 0
          then \<lparr>submitted = [], returned = Inl (ValueError ''max_workers must be greater than 0'')\<rparr>
          else
            (case first_failure (submit_error w) [0..<length pl] of
               Some (i, msg) \<Rightarrow> \<lparr>submitted = take (Suc i) pl, returned = Inl (RuntimeError msg)\<rparr>
             | None \<Rightarrow>
                 (case consume_all w empty_tally (as_completed w (futures pl)) of
                    Inl e \<Rightarrow> \<lparr>submitted = map snd (futures pl), returned = Inl e\<rparr>
                  | Inr t \<Rightarrow>
                      \<lparr>submitted = map snd (futures pl),
                       returned = Inr \<lparr>target = host,
                                       open_ports = sort (t_open t),
                                       closed_or_filtered = sort (t_closed t),
                                       errors = dict_fromkeys (t_errors t)\<rparr>\<rparr>)))"

subsection \<open>\<^verbatim>\<open>get_network_configs\<close>\<close>

text \<open>
  What happens to the command of line 29: it cannot be started (\<^verbatim>\<open>Popen\<close> raises an
  \<^verbatim>\<open>OSError\<close> with the given text), or it runs and ends with an exit code, having written
  the given bytes to its standard output and to its standard error. A text is the list of
  its code points.
\<close>

datatype process = Cannot_start "nat list" | Exited int "char list" "char list"

text \<open>
  The strict UTF-8 codec, the locale's codec on most platforms: the code points of
  well-formed UTF-8, \<open>None\<close> where the codec raises \<^verbatim>\<open>UnicodeDecodeError\<close>.
\<close>

definition cont :: "nat \<Rightarrow> bool" where
  "cont b = (0x80 \<le> b \<and> b \<le> 0xBF)"

definition second_of_three :: "nat \<Rightarrow> nat \<Rightarrow> bool" where
  "second_of_three b0 b1 =
     (if b0 = 0xE0 then 0xA0 \<le> b1 \<and> b1 \<le> 0xBF
      else if b0 = 0xED then 0x80 \<le> b1 \<and> b1 \<le> 0x9F
      else cont b1)"

definition second_of_four :: "nat \<Rightarrow> nat \<Rightarrow> bool" where
  "second_of_four b0 b1 =
     (if b0 = 0xF0 then 0x90 \<le> b1 \<and> b1 \<le> 0xBF
      else if b0 = 0xF4 then 0x80 \<le> b1 \<and> b1 \<le> 0x8F
      else cont b1)"

fun utf8_points :: "nat list \<Rightarrow> nat list option" where
  "utf8_points [] = Some []"
| "utf8_points (b0 # bs) =
     (if b0 < 0x80 then map_option (Cons b0) (utf8_points bs)
      else if 0xC2 \<le> b0 \<and> b0 \<le> 0xDF then
        (case bs of
           b1 # r \<Rightarrow>
             if cont b1
             then map_option (Cons ((b0 - 0xC0) * 64 + (b1 - 0x80))) (utf8_points r)
             else None
         | _ \<Rightarrow> None)
      else if 0xE0 \<le> b0 \<and> b0 \<le> 0xEF then
        (case bs of
           b1 # b2 # r \<Rightarrow>
             if second_of_three b0 b1 \<and> cont b2
             then map_option
                    (Cons (((b0 - 0xE0) * 64 + (b1 - 0x80)) * 64 + (b2 - 0x80)))
                    (utf8_points r)
             else None
         | _ \<Rightarrow> None)
      else if 0xF0 \<le> b0 \<and> b0 \<le> 0xF4 then
        (case bs of
           b1 # b2 # b3 # r \<Rightarrow>
             if second_of_four b0 b1 \<and> cont b2 \<and> cont b3
             then map_option
                    (Cons ((((b0 - 0xF0) * 64 + (b1 - 0x80)) * 64 + (b2 - 0x80)) * 64
                           + (b3 - 0x80)))
                    (utf8_points r)
             else None
         | _ \<Rightarrow> None)
      else None)"

definition utf8 :: "char list \<Rightarrow> nat list option" where
  "utf8 bs = utf8_points (map of_char bs)"

text \<open>
  \<^verbatim>\<open>data.replace("\r\n", "\n").replace("\r", "\n")\<close>, which text mode applies to the
  decoded output.
\<close>

fun replace_crlf :: "nat list \<Rightarrow> nat list" where
  "replace_crlf [] = []"
| "replace_crlf [c] = [c]"
| "replace_crlf (c # d # cs) =
     (if c = 13 \<and> d = 10 then 10 # replace_crlf cs else c # replace_crlf (d # cs))"

definition translate_newlines :: "nat list \<Rightarrow> nat list" where
  "translate_newlines t = map (\<lambda>c. if c = 13 then 10 else c) (replace_crlf t)"

text \<open>
  The exceptions of \<^verbatim>\<open>subprocess.run\<close>, and \<^verbatim>\<open>str(e)\<close>; the wording of a
  \<^verbatim>\<open>UnicodeDecodeError\<close> is not modelled.
\<close>

datatype run_error = OSError "nat list" | UnicodeDecodeError

datatype description = Text "nat list" | Text_of_UnicodeDecodeError

definition str_of :: "run_error \<Rightarrow> description" where
  "str_of e = (case e of OSError txt \<Rightarrow> Text txt | UnicodeDecodeError \<Rightarrow> Text_of_UnicodeDecodeError)"

record completed_process =
  returncode :: int
  stdout :: "nat list"
  stderr :: "nat list"

text \<open>
  \<^verbatim>\<open>subprocess.run('ifconfig', capture_output=True, text=True, check=False)\<close> with the
  locale's codec \<open>codec\<close>: both captured streams are decoded, standard output first, and
  their newlines translated; the exit code is not looked at.
\<close>

definition subprocess_run ::
  "(char list \<Rightarrow> nat list option) \<Rightarrow> process \<Rightarrow> run_error + completed_process" where
  "subprocess_run codec p =
     (case p of
        Cannot_start txt \<Rightarrow> Inl (OSError txt)
      | Exited rc out err \<Rightarrow>
          (case codec out of
             None \<Rightarrow> Inl UnicodeDecodeError
           | Some tout \<Rightarrow>
               (case codec err of
                  None \<Rightarrow> Inl UnicodeDecodeError
                | Some terr \<Rightarrow>
                    Inr \<lparr>returncode = rc,
                         stdout = translate_newlines tout,
                         stderr = translate_newlines terr\<rparr>)))"

record configs =
  status :: string
  network_configs :: description

text \<open>Lines 28 to 32.\<close>

definition get_network_configs :: "(char list \<Rightarrow> nat list option) \<Rightarrow> process \<Rightarrow> configs" where
  "get_network_configs codec p =
     (case subprocess_run codec p of
        Inr out \<Rightarrow> \<lparr>status = ''success'', network_configs = Text (stdout out)\<rparr>
      | Inl e \<Rightarrow> \<lparr>status = ''error'', network_configs = str_of e\<rparr>)"

subsection \<open>Notions used to state the properties\<close>

text \<open>A future whose probe connected and whose result reached the loop.\<close>

definition opened :: "world \<Rightarrow> nat \<times> int \<Rightarrow> bool" where
  "opened w fut = (machinery w (fst fut) = None \<and> socket_of w (fst fut) = Connected)"

text \<open>
  The error text of a future's outcome: the text of the exception caught in
  \<^verbatim>\<open>probe\<close>, or \<^verbatim>\<open>unexpected error\<close> followed by the text of the exception raised by
  \<^verbatim>\<open>fut.result()\<close>.
\<close>

definition error_text :: "world \<Rightarrow> nat \<times> int \<Rightarrow> string option" where
  "error_text w fut =
     (case machinery w (fst fut) of
        Some exc \<Rightarrow> Some (''unexpected error '' @ exc)
      | None \<Rightarrow> (case socket_of w (fst fut) of Connected \<Rightarrow> None | Failed s \<Rightarrow> Some s))"

definition message :: "world \<Rightarrow> nat \<times> int \<Rightarrow> string option" where
  "message w fut =
     (case error_text w fut of
        None \<Rightarrow> None
      | Some txt \<Rightarrow> if txt = [] then None else Some (''port '' @ decimal (snd fut) @ '': '' @ txt))"

text \<open>The list \<^verbatim>\<open>errors\<close> when the loop has ended (before line 142).\<close>

definition errors_after_loop :: "world \<Rightarrow> int list \<Rightarrow> string list" where
  "errors_after_loop w pl =
     (case consume_all w empty_tally (as_completed w (futures pl)) of
        Inl e \<Rightarrow> []
      | Inr t \<Rightarrow> t_errors t)"

text \<open>The position of the first occurrence of \<open>x\<close> in \<open>xs\<close>.\<close>

definition first_index :: "'a list \<Rightarrow> 'a \<Rightarrow> nat" where
  "first_index xs x = length (takeWhile (\<lambda>y. y \<noteq> x) xs)"

text \<open>
  \<open>es\<close> lists the elements of \<open>raw\<close> once each, an element before another when it
  occurs in \<open>raw\<close> before the other's first occurrence.
\<close>

definition first_seen :: "'a list \<Rightarrow> 'a list \<Rightarrow> bool" where
  "first_seen raw es =
     (distinct es \<and> set es = set raw \<and>
      sorted_wrt (\<lambda>x y. x \<in> set (takeWhile (\<lambda>z. z \<noteq> y) raw)) es)"

text \<open>Each of the first \<open>n\<close> calls of \<^verbatim>\<open>exe.submit\<close> returns its future.\<close>

definition threads_start :: "world \<Rightarrow> nat \<Rightarrow> bool" where
  "threads_start w n = list_all (\<lambda>i. submit_error w i = None) [0..<n]"

text \<open>
  Worlds for concrete runs. Every connection is refused; only the first connects and the
  others time out; the same, and the result of the third future cannot be fetched;
  \<^verbatim>\<open>connect\<close> rejects the port number; no worker thread can be started.
\<close>

definition all_refused :: world where
  "all_refused =
     \<lparr>submit_error = (\<lambda>i. None),
      socket_of = (\<lambda>i. Failed ''[Errno 111] Connection refused''),
      machinery = (\<lambda>i. None),
      finish_time = (\<lambda>i. i)\<rparr>"

definition first_connects :: world where
  "first_connects =
     \<lparr>submit_error = (\<lambda>i. None),
      socket_of = (\<lambda>i. if i = 0 then Connected else Failed ''timed out''),
      machinery = (\<lambda>i. None),
      finish_time = (\<lambda>i. 10 - i)\<rparr>"

definition machinery_fails :: world where
  "machinery_fails =
     \<lparr>submit_error = (\<lambda>i. None),
      socket_of = (\<lambda>i. if i = 0 then Connected else Failed ''timed out''),
      machinery = (\<lambda>i. if i = 2 then Some ''cancelled'' else None),
      finish_time = (\<lambda>i. 10 - i)\<rparr>"

definition port_rejected :: world where
  "port_rejected =
     \<lparr>submit_error = (\<lambda>i. None),
      socket_of = (\<lambda>i. Failed ''connect(): port must be 0-65535.''),
      machinery = (\<lambda>i. None),
      finish_time = (\<lambda>i. i)\<rparr>"

definition no_threads :: world where
  "no_threads =
     \<lparr>submit_error = (\<lambda>i. Some ''can't start new thread''),
      socket_of = (\<lambda>i. Failed ''[Errno 111] Connection refused''),
      machinery = (\<lambda>i. None),
      finish_time = (\<lambda>i. i)\<rparr>"

text \<open>An integer of 4301 digits.\<close>

definition huge :: int where
  "huge = 10 ^ 4300"

section \<open>Properties\<close>

subsection \<open>Digits\<close>

declare decimal_nat.simps [simp del]

lemma decimal_nat_nonempty: "0 < length (decimal_nat n)"
  by (subst decimal_nat.simps) simp

lemma decimal_nat_long: "10 ^ k \<le> n \<Longrightarrow> k < length (decimal_nat n)"
proof (induction k arbitrary: n)
  case 0
  show ?case by (rule decimal_nat_nonempty)
next
  case (Suc k)
  have "(1::nat) \<le> 10 ^ k" by simp
  then have ten: "(10::nat) \<le> 10 * 10 ^ k" by simp
  from Suc.prems have "10 * 10 ^ k \<le> n" by simp
  with ten have "10 \<le> n" by (rule order_trans)
  then have big: "\<not> n < 10" by simp
  from Suc.prems have "10 ^ k \<le> n div 10" by (simp add: less_eq_div_iff_mult_less_eq)
  from Suc.IH [OF this] have "k < length (decimal_nat (n div 10))" .
  then show ?case using big by (subst decimal_nat.simps) simp
qed

lemma decimal_nat_short: "n < 10 ^ Suc k \<Longrightarrow> length (decimal_nat n) \<le> Suc k"
proof (induction k arbitrary: n)
  case 0
  then show ?case by (subst decimal_nat.simps) simp
next
  case (Suc k)
  show ?case
  proof (cases "n < 10")
    case True
    then show ?thesis by (subst decimal_nat.simps) simp
  next
    case False
    from Suc.prems have "n div 10 < 10 ^ Suc k" by (simp add: div_less_iff_less_mult)
    from Suc.IH [OF this] False show ?thesis by (subst decimal_nat.simps) simp
  qed
qed

lemma huge_not_printable: "\<not> printable huge"
proof -
  have "(0::int) \<le> 10 ^ 4300" by (rule zero_le_power) simp
  then have "\<bar>huge\<bar> = 10 ^ 4300" unfolding huge_def by (rule abs_of_nonneg)
  then have "nat \<bar>huge\<bar> = (10::nat) ^ 4300"
    by (simp only: nat_power_eq zero_le_numeral nat_numeral)
  then have "(10::nat) ^ 4300 \<le> nat \<bar>huge\<bar>" by (simp only: order_refl)
  from decimal_nat_long [OF this] show ?thesis
    by (simp add: printable_def int_max_str_digits_def)
qed

lemma port_printable:
  assumes "\<bar>p\<bar> < 100000"
  shows "printable p"
proof -
  from assms have "nat \<bar>p\<bar> < 10 ^ Suc 4" by simp
  from decimal_nat_short [OF this] show ?thesis
    by (simp add: printable_def int_max_str_digits_def)
qed

lemma str_int_printable: "printable p \<Longrightarrow> str_int p = Some (decimal p)"
  by (simp add: str_int_def)

lemma str_int_Some: "str_int p = Some sp \<Longrightarrow> sp = decimal p"
  by (simp add: str_int_def split: if_splits)

subsection \<open>The loop\<close>

lemma consume_Inr:
  assumes "consume w t f = Inr t'"
  shows "t_open t' = t_open t @ map snd (filter (opened w) [f])"
    and "t_closed t' = t_closed t @ map snd (filter (\<lambda>f. \<not> opened w f) [f])"
    and "t_errors t' = t_errors t @ List.map_filter (message w) [f]"
  using assms
  by (cases f;
      auto simp: consume_def handler_def fut_result_def probe_def opened_def truthy_def
        message_def error_text_def str_opt_def List.map_filter_def
        split: option.splits conn.splits if_splits dest: str_int_Some)+

lemma consume_printable:
  assumes "printable (snd f)"
  shows "\<exists>t'. consume w t f = Inr t'"
  using assms
  by (cases f)
    (auto simp: consume_def handler_def fut_result_def probe_def str_int_def
      split: option.splits conn.splits)

lemma map_filter_Cons:
  "List.map_filter g (x # xs) = List.map_filter g [x] @ List.map_filter g xs"
  by (simp add: List.map_filter_def)

lemma consume_all_Inr:
  assumes "consume_all w t fs = Inr t'"
  shows "t_open t' = t_open t @ map snd (filter (opened w) fs)
    \<and> t_closed t' = t_closed t @ map snd (filter (\<lambda>f. \<not> opened w f) fs)
    \<and> t_errors t' = t_errors t @ List.map_filter (message w) fs"
  using assms
proof (induction fs arbitrary: t)
  case Nil
  then show ?case by (simp add: List.map_filter_def)
next
  case (Cons f fs)
  from Cons.prems obtain t1 where c: "consume w t f = Inr t1"
    and r: "consume_all w t1 fs = Inr t'"
    by (auto split: sum.splits)
  from Cons.IH [OF r] consume_Inr [OF c] map_filter_Cons [of "message w" f fs]
  show ?case by simp
qed

lemma consume_all_printable:
  assumes "\<forall>f \<in> set fs. printable (snd f)"
  shows "\<exists>t'. consume_all w t fs = Inr t'"
  using assms
proof (induction fs arbitrary: t)
  case Nil
  show ?case by simp
next
  case (Cons f fs)
  from Cons.prems have "printable (snd f)" by simp
  from consume_printable [OF this, of w t] obtain t1 where c: "consume w t f = Inr t1" ..
  from Cons.prems have "\<forall>f \<in> set fs. printable (snd f)" by simp
  from Cons.IH [OF this, of t1] c show ?case by simp
qed

subsection \<open>The futures and their completion\<close>

lemma map_snd_futures: "map snd (futures pl) = pl"
  by (simp add: futures_def)

lemma mset_as_completed: "mset (as_completed w fs) = mset fs"
  by (simp add: as_completed_def)

lemma set_as_completed: "set (as_completed w fs) = set fs"
  by (simp add: as_completed_def)

lemma mset_ports_as_completed: "mset (map snd (as_completed w (futures pl))) = mset pl"
proof -
  have "mset (map snd (as_completed w (futures pl))) = image_mset snd (mset (futures pl))"
    by (simp add: mset_as_completed)
  also have "\<dots> = mset (map snd (futures pl))" by simp
  finally show ?thesis by (simp add: map_snd_futures)
qed

lemma snd_futures: "f \<in> set (futures pl) \<Longrightarrow> snd f \<in> set pl"
  by (cases f) (auto simp: futures_def dest: set_zip_rightD)

lemma first_index_nth:
  "distinct xs \<Longrightarrow> k < length xs \<Longrightarrow> first_index xs (xs ! k) = k"
proof (induction xs arbitrary: k)
  case Nil
  then show ?case by simp
next
  case (Cons x xs)
  show ?case
  proof (cases k)
    case 0
    then show ?thesis by (simp add: first_index_def)
  next
    case (Suc m)
    with Cons.prems have "xs ! m \<noteq> x" and "first_index xs (xs ! m) = m"
      using Cons.IH [of m] by auto
    with Suc show ?thesis by (simp add: first_index_def)
  qed
qed

lemma distinct_fst_futures: "distinct (map fst (futures pl))"
  by (simp add: futures_def)

text \<open>
  The model does not restrict the schedule: every arrangement of the futures is the
  completion order of some world.
\<close>

lemma every_completion_order:
  assumes "mset fs = mset (futures pl)"
  shows "as_completed (w\<lparr>finish_time := first_index (map fst fs)\<rparr>) (futures pl) = fs"
proof -
  let ?key = "\<lambda>f. first_index (map fst fs) (fst f)"
  let ?xs = "sort_key ?key (futures pl)"
  have "mset (map fst fs) = mset (map fst (futures pl))"
    using assms by (metis mset_map)
  then have dfs: "distinct (map fst fs)"
    using distinct_fst_futures [of pl] by (metis mset_eq_imp_distinct_iff)
  have keys: "map ?key fs = [0..<length fs]"
  proof (rule nth_equalityI)
    show "length (map ?key fs) = length [0..<length fs]" by simp
  next
    fix k assume "k < length (map ?key fs)"
    then have k: "k < length fs" by simp
    then have "first_index (map fst fs) (map fst fs ! k) = k"
      using first_index_nth [OF dfs, of k] by simp
    with k show "map ?key fs ! k = [0..<length fs] ! k" by simp
  qed
  have inj: "inj_on ?key (set fs)"
    using keys by (metis distinct_map distinct_upt)
  have sets: "set ?xs = set fs"
    using assms by (metis mset_eq_setD set_sort)
  have "?xs = fs"
  proof (rule map_sorted_distinct_set_unique [of ?key])
    show "inj_on ?key (set ?xs \<union> set fs)" using inj sets by simp
    show "sorted (map ?key ?xs)" by simp
    show "distinct (map ?key ?xs)"
      using inj sets distinct_fst_futures [of pl]
      by (metis distinct_map distinct_sort)
    show "sorted (map ?key fs)" by (simp only: keys sorted_upt)
    show "distinct (map ?key fs)" by (simp only: keys distinct_upt)
    show "set ?xs = set fs" by (rule sets)
  qed
  then show ?thesis by (simp add: as_completed_def)
qed

subsection \<open>Submitting\<close>

lemma first_failure_None:
  "first_failure g js = None \<longleftrightarrow> list_all (\<lambda>i. g i = None) js"
  by (induction js) (auto split: option.splits)

lemma threads_start_iff: "threads_start w n \<longleftrightarrow> (\<forall>i<n. submit_error w i = None)"
  by (auto simp: threads_start_def list_all_iff)

lemma threads_start_first_failure:
  "threads_start w n \<longleftrightarrow> first_failure (submit_error w) [0..<n] = None"
  by (simp add: threads_start_def first_failure_None)

subsection \<open>What a call returns\<close>

lemma scan_ports_returned:
  assumes "returned (scan_ports w host ports pr mw) = Inr r"
  shows "\<exists>pl t. ports_list ports pr = Inr pl \<and> 0 < mw \<and> threads_start w (length pl)
    \<and> consume_all w empty_tally (as_completed w (futures pl)) = Inr t"
  using assms
  by (auto simp: scan_ports_def threads_start_first_failure
      split: sum.splits if_splits option.splits prod.splits)

lemma scan_ports_submitted:
  assumes "ports_list ports pr = Inr pl" and "0 < mw" and "threads_start w (length pl)"
  shows "submitted (scan_ports w host ports pr mw) = pl"
  using assms
  by (auto simp: scan_ports_def threads_start_first_failure map_snd_futures split: sum.splits)

lemma scan_ports_result:
  assumes "ports_list ports pr = Inr pl" and "returned (scan_ports w host ports pr mw) = Inr r"
  shows "r = \<lparr>target = host,
       open_ports = sort (map snd (filter (opened w) (as_completed w (futures pl)))),
       closed_or_filtered = sort (map snd (filter (\<lambda>f. \<not> opened w f) (as_completed w (futures pl)))),
       errors = dict_fromkeys (errors_after_loop w pl)\<rparr>"
    and "errors_after_loop w pl = List.map_filter (message w) (as_completed w (futures pl))"
proof -
  from scan_ports_returned [OF assms(2)] assms(1) obtain t where
    mw: "0 < mw" and th: "threads_start w (length pl)"
    and t: "consume_all w empty_tally (as_completed w (futures pl)) = Inr t"
    by auto
  from consume_all_Inr [OF t]
  have o: "t_open t = map snd (filter (opened w) (as_completed w (futures pl)))"
    and c: "t_closed t = map snd (filter (\<lambda>f. \<not> opened w f) (as_completed w (futures pl)))"
    and e: "t_errors t = List.map_filter (message w) (as_completed w (futures pl))"
    by (simp_all add: empty_tally_def)
  have l: "errors_after_loop w pl = t_errors t"
    by (simp add: errors_after_loop_def t)
  with e show "errors_after_loop w pl = List.map_filter (message w) (as_completed w (futures pl))"
    by simp
  from th have "first_failure (submit_error w) [0..<length pl] = None"
    by (simp add: threads_start_first_failure)
  with assms mw t have "r = \<lparr>target = host, open_ports = sort (t_open t),
      closed_or_filtered = sort (t_closed t), errors = dict_fromkeys (t_errors t)\<rparr>"
    by (simp add: scan_ports_def)
  with o c l show "r = \<lparr>target = host,
       open_ports = sort (map snd (filter (opened w) (as_completed w (futures pl)))),
       closed_or_filtered = sort (map snd (filter (\<lambda>f. \<not> opened w f) (as_completed w (futures pl)))),
       errors = dict_fromkeys (errors_after_loop w pl)\<rparr>"
    by simp
qed

lemma scan_ports_returns:
  assumes "ports_list ports pr = Inr pl" and "0 < mw" and "threads_start w (length pl)"
    and "\<forall>p \<in> set pl. printable p"
  shows "\<exists>r. returned (scan_ports w host ports pr mw) = Inr r"
proof -
  from assms(4) have "\<forall>f \<in> set (as_completed w (futures pl)). printable (snd f)"
    by (auto simp: set_as_completed dest: snd_futures)
  from consume_all_printable [OF this, of w empty_tally] obtain t where
    "consume_all w empty_tally (as_completed w (futures pl)) = Inr t" ..
  with assms(1-3) show ?thesis
    by (simp add: scan_ports_def threads_start_first_failure)
qed

lemma mset_partition_ports:
  "mset (map snd (filter (opened w) (as_completed w (futures pl)))) +
   mset (map snd (filter (\<lambda>f. \<not> opened w f) (as_completed w (futures pl)))) = mset pl"
proof -
  let ?M = "mset (as_completed w (futures pl))"
  have "filter_mset (opened w) ?M + filter_mset (\<lambda>f. \<not> opened w f) ?M = ?M"
    by (rule multiset_partition [symmetric])
  then have "image_mset snd (filter_mset (opened w) ?M) +
             image_mset snd (filter_mset (\<lambda>f. \<not> opened w f) ?M) = image_mset snd ?M"
    by (metis image_mset_union)
  moreover have "image_mset snd ?M = mset pl"
    using mset_ports_as_completed [of w pl] by simp
  ultimately show ?thesis by simp
qed

lemma result_mset:
  assumes "ports_list ports pr = Inr pl" and "returned (scan_ports w host ports pr mw) = Inr r"
  shows "mset (open_ports r) + mset (closed_or_filtered r) = mset pl"
  using mset_partition_ports [of w pl] by (simp add: scan_ports_result(1) [OF assms])

lemma result_closed:
  assumes "ports_list ports pr = Inr pl" and "returned (scan_ports w host ports pr mw) = Inr r"
    and "f \<in> set (futures pl)" and "\<not> opened w f"
  shows "snd f \<in> set (closed_or_filtered r)"
  using assms(3,4) by (auto simp: scan_ports_result(1) [OF assms(1,2)] set_as_completed)

lemma ports_list_range_distinct:
  assumes "ports_list None pr = Inr pl"
  shows "distinct pl"
  using assms by (auto simp: ports_list_def split: option.splits if_splits)

lemma ports_list_range_printable:
  assumes "ports_list None pr = Inr pl"
  shows "\<forall>p \<in> set pl. printable p"
  using assms by (auto simp: ports_list_def split: option.splits if_splits intro!: port_printable)

lemma ports_list_ints: "ports_list (Some (map PyInt is)) pr = Inr is"
proof -
  have "int_all (map PyInt is) = Inr is" by (induction "is") (simp_all add: py_int_def)
  then show ?thesis by (simp add: ports_list_def)
qed

lemma ports_list_explicit: "ports_list (Some ps) pr = int_all ps"
  by (simp add: ports_list_def)

lemma ports_list_valid_range:
  assumes "1 \<le> s" and "s \<le> e" and "e \<le> 65535"
  shows "ports_list None (Some (s, e)) = Inr [s..e]"
  using assms by (simp add: ports_list_def)

lemma distinct_disjoint_of_mset:
  assumes "mset xs + mset ys = mset pl" and "distinct pl"
  shows "set xs \<inter> set ys = {} \<and> distinct xs \<and> distinct ys"
proof -
  from assms(1) have "mset (xs @ ys) = mset pl" by simp
  then have "distinct (xs @ ys)" using assms(2) by (metis mset_eq_imp_distinct_iff)
  then show ?thesis by auto
qed

text \<open>What the code does where the claims' words do not hold.\<close>

lemma nonpositive_max_workers_raises:
  assumes "ports_list ports pr = Inr pl" and "mw \<le> 0"
  shows "scan_ports w host ports pr mw =
    \<lparr>submitted = [], returned = Inl (ValueError ''max_workers must be greater than 0'')\<rparr>"
  using assms by (simp add: scan_ports_def)

lemma unprintable_port_raises:
  assumes "\<not> printable p" and "error_text w (i, p) = Some txt" and "txt \<noteq> []"
  shows "consume w t (i, p) = Inl (ValueError exceeds_limit)"
  using assms
  by (auto simp: consume_def handler_def fut_result_def probe_def str_int_def truthy_def
      error_text_def split: option.splits conn.splits)

lemma message_provenance:
  assumes "message w f = Some e"
  shows "\<not> opened w f \<and>
    (\<exists>txt. error_text w f = Some txt \<and> txt \<noteq> [] \<and> e = ''port '' @ decimal (snd f) @ '': '' @ txt)"
  using assms
  by (auto simp: message_def error_text_def opened_def split: option.splits conn.splits if_splits)

lemma set_map_filter_eq: "set (List.map_filter g xs) = {y. \<exists>x \<in> set xs. g x = Some y}"
  by (induction xs) (auto simp: List.map_filter_def)

lemma int_all_fails:
  assumes "v \<in> set ps" and "py_int v = Inl e"
  shows "\<exists>u e'. u \<in> set ps \<and> py_int u = Inl e' \<and> int_all ps = Inl e'"
  using assms
proof (induction ps)
  case Nil
  then show ?case by simp
next
  case (Cons p ps)
  show ?case
  proof (cases "py_int p")
    case (Inl e1)
    then show ?thesis by auto
  next
    case (Inr i)
    with Cons.prems have "v \<in> set ps" by auto
    from Cons.IH [OF this Cons.prems(2)] Inr show ?thesis by auto
  qed
qed

lemma py_int_error:
  assumes "py_int u = Inl e"
  shows "(\<exists>s. u = PyStr s \<and> int_literal s = None \<and> e = ValueError_of_int s)
    \<or> (u = PyNone \<and> e = TypeError_of_int)"
  using assms by (auto simp: py_int_def split: pyval.splits option.splits)

subsection \<open>Keys of an insertion-ordered dictionary\<close>

lemma takeWhile_neq_append:
  "y \<in> set pre \<Longrightarrow> takeWhile (\<lambda>z. z \<noteq> y) (pre @ ks) = takeWhile (\<lambda>z. z \<noteq> y) pre"
  by (induction pre) auto

lemma takeWhile_neq_fresh:
  "k \<notin> set pre \<Longrightarrow> takeWhile (\<lambda>z. z \<noteq> k) (pre @ k # ks) = pre"
  by (induction pre) auto

lemma first_seen_step:
  assumes "first_seen pre d"
  shows "first_seen (pre @ [k]) (if k \<in> set d then d else d @ [k])"
proof -
  from assms have dd: "distinct d" and sd: "set d = set pre"
    and od: "sorted_wrt (\<lambda>x y. x \<in> set (takeWhile (\<lambda>z. z \<noteq> y) pre)) d"
    by (simp_all add: first_seen_def)
  have od': "sorted_wrt (\<lambda>x y. x \<in> set (takeWhile (\<lambda>z. z \<noteq> y) (pre @ [k]))) d"
  proof (rule sorted_wrt_mono_rel [OF _ od])
    fix x y assume "y \<in> set d" and "x \<in> set (takeWhile (\<lambda>z. z \<noteq> y) pre)"
    then show "x \<in> set (takeWhile (\<lambda>z. z \<noteq> y) (pre @ [k]))"
      using sd by (simp add: takeWhile_neq_append)
  qed
  show ?thesis
  proof (cases "k \<in> set d")
    case True
    with dd sd od' show ?thesis by (auto simp: first_seen_def)
  next
    case False
    then have "k \<notin> set pre" using sd by simp
    then have "takeWhile (\<lambda>z. z \<noteq> k) (pre @ [k]) = pre" by (rule takeWhile_neq_fresh)
    with False dd sd od' show ?thesis
      by (auto simp: first_seen_def sorted_wrt_append)
  qed
qed

lemma first_seen_fromkeys:
  "first_seen pre d \<Longrightarrow> first_seen (pre @ ks) (fromkeys d ks)"
proof (induction ks arbitrary: pre d)
  case Nil
  then show ?case by simp
next
  case (Cons k ks)
  from Cons.IH [OF first_seen_step [OF Cons.prems, of k]] show ?case by simp
qed

lemma first_seen_dict_fromkeys: "first_seen ks (dict_fromkeys ks)"
  using first_seen_fromkeys [of "[]" "[]" ks] by (simp add: dict_fromkeys_def first_seen_def)

lemma length_takeWhile_neq:
  "x \<in> set p \<Longrightarrow> length (takeWhile (\<lambda>z. z \<noteq> x) p) < length p"
  by (induction p) auto

lemma first_index_less:
  assumes "x \<in> set (takeWhile (\<lambda>z. z \<noteq> y) raw)"
  shows "first_index raw x < first_index raw y"
proof -
  let ?p = "takeWhile (\<lambda>z. z \<noteq> y) raw"
  have "takeWhile (\<lambda>z. z \<noteq> x) raw = takeWhile (\<lambda>z. z \<noteq> x) ?p"
    using takeWhile_neq_append [OF assms, of "dropWhile (\<lambda>z. z \<noteq> y) raw"] by simp
  moreover have "length (takeWhile (\<lambda>z. z \<noteq> x) ?p) < length ?p"
    using assms by (rule length_takeWhile_neq)
  ultimately show ?thesis by (simp add: first_index_def)
qed

lemma first_seen_index:
  assumes "first_seen raw es" and "i < j" and "j < length es"
  shows "first_index raw (es ! i) < first_index raw (es ! j)"
proof -
  from assms have "es ! i \<in> set (takeWhile (\<lambda>z. z \<noteq> es ! j) raw)"
    by (auto simp: first_seen_def sorted_wrt_iff_nth_less)
  then show ?thesis by (rule first_index_less)
qed

section \<open>The claims\<close>

subsection \<open>C1: the result partitions the requested ports\<close>

text \<open>
  C1, as stated: for every valid request the two lists are disjoint, their union as a set
  is the requested port set, and their lengths add up to the number of distinct requested
  ports. It fails for an explicit list that names a port twice: with \<^verbatim>\<open>ports=[80, 80]\<close>
  and both connections refused the lengths add up to 2 while one distinct port was
  requested; and when the first connection succeeds and the second times out, port 80 is
  in both lists.
\<close>

theorem partition_counterexample:
  "returned (scan_ports all_refused ''10.0.0.1'' (Some [PyInt 80, PyInt 80]) None 200) =
     Inr \<lparr>target = ''10.0.0.1'', open_ports = [], closed_or_filtered = [80, 80],
          errors = [''port 80: [Errno 111] Connection refused'']\<rparr>
   \<and> length (open_ports (projr (returned (scan_ports all_refused ''10.0.0.1'' (Some [PyInt 80, PyInt 80]) None 200))))
     + length (closed_or_filtered (projr (returned (scan_ports all_refused ''10.0.0.1'' (Some [PyInt 80, PyInt 80]) None 200))))
     \<noteq> card (set (projr (ports_list (Some [PyInt 80, PyInt 80]) None)))
   \<and> returned (scan_ports first_connects ''10.0.0.1'' (Some [PyInt 80, PyInt 80]) None 200) =
     Inr \<lparr>target = ''10.0.0.1'', open_ports = [80], closed_or_filtered = [80],
          errors = [''port 80: timed out'']\<rparr>
   \<and> set (open_ports (projr (returned (scan_ports first_connects ''10.0.0.1'' (Some [PyInt 80, PyInt 80]) None 200))))
     \<inter> set (closed_or_filtered (projr (returned (scan_ports first_connects ''10.0.0.1'' (Some [PyInt 80, PyInt 80]) None 200))))
     \<noteq> {}"
  by code_simp

text \<open>
  C1, amended: for every valid request the union of \<^verbatim>\<open>open_ports\<close> and
  \<^verbatim>\<open>closed_or_filtered\<close> as a set is the requested port set, and their lengths add up
  to the number of requested entries. When the requested ports are pairwise distinct (as
  they always are for a port set derived from a range), the two lists are disjoint and
  their lengths add up to the number of distinct requested ports.
\<close>

theorem partition_of_requested_ports:
  assumes "ports_list ports pr = Inr pl"
    and "returned (scan_ports w host ports pr mw) = Inr r"
  shows "set (open_ports r) \<union> set (closed_or_filtered r) = set pl
    \<and> length (open_ports r) + length (closed_or_filtered r) = length pl
    \<and> (ports = None \<or> distinct pl \<longrightarrow>
         set (open_ports r) \<inter> set (closed_or_filtered r) = {}
         \<and> length (open_ports r) + length (closed_or_filtered r) = card (set pl))"
proof -
  have m: "mset (open_ports r) + mset (closed_or_filtered r) = mset pl"
    using assms by (rule result_mset)
  then have "mset (open_ports r @ closed_or_filtered r) = mset pl" by simp
  then have s: "set (open_ports r @ closed_or_filtered r) = set pl"
    and l: "length (open_ports r @ closed_or_filtered r) = length pl"
    by (rule mset_eq_setD, rule mset_eq_length)
  have d: "set (open_ports r) \<inter> set (closed_or_filtered r) = {}
      \<and> length (open_ports r) + length (closed_or_filtered r) = card (set pl)"
    if "ports = None \<or> distinct pl"
  proof -
    from that assms(1) have dp: "distinct pl" using ports_list_range_distinct by blast
    from distinct_disjoint_of_mset [OF m dp] l dp show ?thesis
      by (simp add: distinct_card)
  qed
  from s l d show ?thesis by simp
qed

theorem partition_of_requested_ports_witness:
  "ports_list None (Some (7, 10)) = Inr [7, 8, 9, 10]
   \<and> returned (scan_ports first_connects ''10.0.0.1'' None (Some (7, 10)) 200) =
       Inr \<lparr>target = ''10.0.0.1'', open_ports = [7], closed_or_filtered = [8, 9, 10],
            errors = [''port 10: timed out'', ''port 9: timed out'', ''port 8: timed out'']\<rparr>
   \<and> set [7::int] \<union> set [8, 9, 10] = set [7, 8, 9, 10]
   \<and> length [7::int] + length [8::int, 9, 10] = length [7::int, 8, 9, 10]
   \<and> set [7::int] \<inter> set [8, 9, 10] = {}
   \<and> length [7::int] + length [8::int, 9, 10] = card (set [7::int, 8, 9, 10])"
proof -
  have h1: "ports_list None (Some (7, 10)) = Inr [7, 8, 9, 10]" by code_simp
  have h2: "returned (scan_ports first_connects ''10.0.0.1'' None (Some (7, 10)) 200) =
       Inr \<lparr>target = ''10.0.0.1'', open_ports = [7], closed_or_filtered = [8, 9, 10],
            errors = [''port 10: timed out'', ''port 9: timed out'', ''port 8: timed out'']\<rparr>"
    by code_simp
  from partition_of_requested_ports [OF h1 h2] h1 h2 show ?thesis by simp
qed

subsection \<open>C2: a validated call never raises\<close>

text \<open>
  C2, as stated: every call whose arguments pass validation never raises. It fails in
  three ways. With \<^verbatim>\<open>max_workers=0\<close> the constructor of the thread pool raises
  \<^verbatim>\<open>ValueError\<close>. When no worker thread can be started, \<^verbatim>\<open>exe.submit\<close> on line 123
  raises \<^verbatim>\<open>RuntimeError\<close> outside every \<^verbatim>\<open>try\<close>. And for a port of more than 4300
  digits, which \<^verbatim>\<open>connect\<close> rejects, the f-string of line 133 raises \<^verbatim>\<open>ValueError\<close>,
  the handler formats the same port on line 137, and that exception leaves the call.
\<close>

theorem never_raises_counterexample:
  "ports_list (Some [PyInt 80]) None = Inr [80]
   \<and> returned (scan_ports all_refused ''10.0.0.1'' (Some [PyInt 80]) None 0) =
       Inl (ValueError ''max_workers must be greater than 0'')
   \<and> returned (scan_ports no_threads ''10.0.0.1'' (Some [PyInt 80]) None 200) =
       Inl (RuntimeError ''can't start new thread'')
   \<and> ports_list (Some [PyInt huge]) None = Inr [huge]
   \<and> returned (scan_ports port_rejected ''10.0.0.1'' (Some [PyInt huge]) None 200) =
       Inl (ValueError exceeds_limit)"
proof -
  have a: "ports_list (Some [PyInt 80]) None = Inr [80]" by code_simp
  have b: "returned (scan_ports all_refused ''10.0.0.1'' (Some [PyInt 80]) None 0) =
       Inl (ValueError ''max_workers must be greater than 0'')"
    by code_simp
  have c: "returned (scan_ports no_threads ''10.0.0.1'' (Some [PyInt 80]) None 200) =
       Inl (RuntimeError ''can't start new thread'')"
    by code_simp
  have d: "ports_list (Some [PyInt huge]) None = Inr [huge]"
    by (simp add: ports_list_def py_int_def)
  have et: "error_text port_rejected (0, huge) = Some ''connect(): port must be 0-65535.''"
    by (simp add: error_text_def port_rejected_def)
  have ne: "''connect(): port must be 0-65535.'' \<noteq> []" by simp
  have "consume port_rejected empty_tally (0, huge) = Inl (ValueError exceeds_limit)"
    using huge_not_printable et ne by (rule unprintable_port_raises)
  then have e: "returned (scan_ports port_rejected ''10.0.0.1'' (Some [PyInt huge]) None 200) =
       Inl (ValueError exceeds_limit)"
    by (simp add: scan_ports_def d futures_def as_completed_def port_rejected_def)
  from a b c d e show ?thesis by simp
qed

text \<open>
  C2, amended: for every call whose arguments pass validation, whose \<^verbatim>\<open>max_workers\<close> is
  positive, for which every \<^verbatim>\<open>exe.submit\<close> returns, and whose ports come from a range or
  have at most 4300 digits each, the call raises nothing: whatever each probe meets (a
  connection error of any kind, or an exception when its result is fetched) ends up in
  the result, which holds exactly one outcome for each requested entry, and every entry
  whose probe did not connect is in \<^verbatim>\<open>closed_or_filtered\<close>.
\<close>

theorem scan_never_raises:
  assumes "ports_list ports pr = Inr pl" and "0 < mw" and "threads_start w (length pl)"
    and "ports = None \<or> (\<forall>p \<in> set pl. printable p)"
  shows "\<exists>r. returned (scan_ports w host ports pr mw) = Inr r
    \<and> mset (open_ports r) + mset (closed_or_filtered r) = mset pl
    \<and> (\<forall>f \<in> set (futures pl). \<not> opened w f \<longrightarrow> snd f \<in> set (closed_or_filtered r))"
proof -
  from assms(1,4) have "\<forall>p \<in> set pl. printable p"
    using ports_list_range_printable by blast
  from scan_ports_returns [OF assms(1-3) this, of host]
  obtain r where r: "returned (scan_ports w host ports pr mw) = Inr r" ..
  have "mset (open_ports r) + mset (closed_or_filtered r) = mset pl"
    using assms(1) r by (rule result_mset)
  moreover have "\<forall>f \<in> set (futures pl). \<not> opened w f \<longrightarrow> snd f \<in> set (closed_or_filtered r)"
    using result_closed [OF assms(1) r] by blast
  ultimately show ?thesis using r by blast
qed

theorem scan_never_raises_witness:
  "ports_list None (Some (7, 10)) = Inr [7, 8, 9, 10] \<and> (0::int) < 1
   \<and> threads_start machinery_fails (length [7::int, 8, 9, 10])
   \<and> (\<exists>r. returned (scan_ports machinery_fails ''example.org'' None (Some (7, 10)) 1) = Inr r
        \<and> mset (open_ports r) + mset (closed_or_filtered r) = mset [7, 8, 9, 10]
        \<and> (2, 9) \<in> set (futures [7, 8, 9, 10]) \<and> \<not> opened machinery_fails (2, 9)
        \<and> 9 \<in> set (closed_or_filtered r))"
proof -
  have h1: "ports_list None (Some (7, 10)) = Inr [7, 8, 9, 10]" by code_simp
  have h2: "(0::int) < 1" by simp
  have h3: "threads_start machinery_fails (length [7::int, 8, 9, 10])" by code_simp
  have h4: "(2, 9) \<in> set (futures [7, 8, 9, 10])" by code_simp
  have h5: "\<not> opened machinery_fails (2, 9)" by code_simp
  have h6: "None = (None :: pyval list option) \<or> (\<forall>p \<in> set [7::int, 8, 9, 10]. printable p)"
    by simp
  from scan_never_raises [OF h1 h2 h3 h6, of "''example.org''"] h1 h3 h4 h5
  show ?thesis by fastforce
qed

subsection \<open>C3: the validation cases\<close>

text \<open>
  C3: with neither \<^verbatim>\<open>ports\<close> nor \<^verbatim>\<open>port_range\<close>, and with only the range
  \<^verbatim>\<open>(0, 10)\<close> or \<^verbatim>\<open>(100, 50)\<close>, the call raises \<^verbatim>\<open>ValueError\<close> and no probe has
  been submitted; with the range \<^verbatim>\<open>(1, 65535)\<close> (a positive \<^verbatim>\<open>max_workers\<close>, 200 when
  omitted, and worker threads that start) it returns a result whose two lists hold 65535
  ports together.
\<close>

theorem validation_cases:
  "scan_ports w host None None mw =
     \<lparr>submitted = [],
      returned = Inl (ValueError ''either 'ports' or 'port_range' must be provided'')\<rparr>
   \<and> scan_ports w host None (Some (0, 10)) mw =
     \<lparr>submitted = [],
      returned = Inl (ValueError ''invalid port_range; ports must be between 1 and 65535'')\<rparr>
   \<and> scan_ports w host None (Some (100, 50)) mw =
     \<lparr>submitted = [],
      returned = Inl (ValueError ''invalid port_range; ports must be between 1 and 65535'')\<rparr>
   \<and> (0 < mw \<and> threads_start w 65535 \<longrightarrow>
        (\<exists>r. returned (scan_ports w host None (Some (1, 65535)) mw) = Inr r
           \<and> length (open_ports r) + length (closed_or_filtered r) = 65535))"
proof -
  have a: "scan_ports w host None None mw =
     \<lparr>submitted = [],
      returned = Inl (ValueError ''either 'ports' or 'port_range' must be provided'')\<rparr>"
    by (simp add: scan_ports_def ports_list_def)
  have b: "scan_ports w host None (Some (0, 10)) mw =
     \<lparr>submitted = [],
      returned = Inl (ValueError ''invalid port_range; ports must be between 1 and 65535'')\<rparr>"
    by (simp add: scan_ports_def ports_list_def)
  have c: "scan_ports w host None (Some (100, 50)) mw =
     \<lparr>submitted = [],
      returned = Inl (ValueError ''invalid port_range; ports must be between 1 and 65535'')\<rparr>"
    by (simp add: scan_ports_def ports_list_def)
  have d: "\<exists>r. returned (scan_ports w host None (Some (1, 65535)) mw) = Inr r
           \<and> length (open_ports r) + length (closed_or_filtered r) = 65535"
    if mw: "0 < mw" and th: "threads_start w 65535"
  proof -
    have pl: "ports_list None (Some (1, 65535)) = Inr [1..65535]"
      by (rule ports_list_valid_range) simp_all
    have len: "length [1..65535::int] = 65535" by simp
    from th have th': "threads_start w (length [1..65535::int])" by (simp only: len)
    let ?c = "scan_ports w host None (Some (1, 65535)) mw"
    from scan_ports_returns [OF pl mw th' ports_list_range_printable [OF pl], of host]
    obtain r where r: "returned ?c = Inr r" ..
    from result_mset [OF pl r]
    have "size (mset (open_ports r) + mset (closed_or_filtered r)) = size (mset [1..65535::int])"
      by simp
    then have "length (open_ports r) + length (closed_or_filtered r) = 65535"
      by simp
    with r show ?thesis by blast
  qed
  from a b c d show ?thesis by blast
qed

theorem validation_cases_witness:
  "(0::int) < 200 \<and> threads_start all_refused 65535
   \<and> (\<exists>r. returned (scan_ports all_refused ''10.0.0.1'' None (Some (1, 65535)) 200) = Inr r
        \<and> length (open_ports r) + length (closed_or_filtered r) = 65535)"
proof -
  have h: "threads_start all_refused 65535"
    by (simp add: threads_start_iff all_refused_def)
  from validation_cases [of all_refused "''10.0.0.1''" 200] h show ?thesis by simp
qed

subsection \<open>C4: the order of the two port lists\<close>

text \<open>
  C4, as stated: in every result \<^verbatim>\<open>open_ports\<close> and \<^verbatim>\<open>closed_or_filtered\<close> are
  strictly ascending. It fails for an explicit list that names a port twice: with
  \<^verbatim>\<open>ports=[443, 22, 443]\<close> and every connection refused, \<^verbatim>\<open>closed_or_filtered\<close> is
  \<^verbatim>\<open>[22, 443, 443]\<close>.
\<close>

theorem strictly_ascending_counterexample:
  "returned (scan_ports all_refused ''10.0.0.1'' (Some [PyInt 443, PyInt 22, PyInt 443]) None 200) =
     Inr \<lparr>target = ''10.0.0.1'', open_ports = [], closed_or_filtered = [22, 443, 443],
          errors = [''port 443: [Errno 111] Connection refused'',
                    ''port 22: [Errno 111] Connection refused'']\<rparr>
   \<and> \<not> sorted_wrt (<) (closed_or_filtered (projr (returned
         (scan_ports all_refused ''10.0.0.1'' (Some [PyInt 443, PyInt 22, PyInt 443]) None 200))))"
  by code_simp

text \<open>
  C4, amended: in every result \<^verbatim>\<open>open_ports\<close> and \<^verbatim>\<open>closed_or_filtered\<close> are
  ascending; they are strictly ascending when the requested ports are pairwise distinct,
  as they always are for a port set derived from a range.
\<close>

theorem lists_ascending:
  assumes "ports_list ports pr = Inr pl"
    and "returned (scan_ports w host ports pr mw) = Inr r"
  shows "sorted (open_ports r) \<and> sorted (closed_or_filtered r)
    \<and> (ports = None \<or> distinct pl \<longrightarrow>
         sorted_wrt (<) (open_ports r) \<and> sorted_wrt (<) (closed_or_filtered r))"
proof -
  note r = scan_ports_result(1) [OF assms]
  have s: "sorted (open_ports r) \<and> sorted (closed_or_filtered r)"
    by (simp add: r)
  have d: "sorted_wrt (<) (open_ports r) \<and> sorted_wrt (<) (closed_or_filtered r)"
    if "ports = None \<or> distinct pl"
  proof -
    from that assms(1) have dp: "distinct pl" using ports_list_range_distinct by blast
    from distinct_disjoint_of_mset [OF result_mset [OF assms] dp]
    have "distinct (open_ports r)" and "distinct (closed_or_filtered r)" by simp_all
    with s show ?thesis by (simp add: strict_sorted_iff)
  qed
  from s d show ?thesis by simp
qed

theorem lists_ascending_witness:
  "ports_list (Some [PyInt 443, PyInt 22, PyInt 80]) None = Inr [443, 22, 80]
   \<and> returned (scan_ports first_connects ''10.0.0.1'' (Some [PyInt 443, PyInt 22, PyInt 80]) None 200) =
       Inr \<lparr>target = ''10.0.0.1'', open_ports = [443], closed_or_filtered = [22, 80],
            errors = [''port 80: timed out'', ''port 22: timed out'']\<rparr>
   \<and> distinct [443::int, 22, 80]
   \<and> sorted_wrt (<) [443::int] \<and> sorted_wrt (<) [22::int, 80]"
proof -
  have h1: "ports_list (Some [PyInt 443, PyInt 22, PyInt 80]) None = Inr [443, 22, 80]"
    by code_simp
  have h2: "returned (scan_ports first_connects ''10.0.0.1'' (Some [PyInt 443, PyInt 22, PyInt 80]) None 200) =
       Inr \<lparr>target = ''10.0.0.1'', open_ports = [443], closed_or_filtered = [22, 80],
            errors = [''port 80: timed out'', ''port 22: timed out'']\<rparr>"
    by code_simp
  from lists_ascending [OF h1 h2] h1 h2 show ?thesis by simp
qed

subsection \<open>C5: the error messages\<close>

text \<open>
  C5: in every result the \<^verbatim>\<open>errors\<close> list has no two equal strings; each entry is
  the message of a future that is not open and has a non-empty error text; the list
  holds the messages appended in the loop (those of the futures in the order they were
  consumed), each once; and a message stands before another when its first occurrence
  in the loop's list comes first.
\<close>

theorem errors_deduplicated:
  assumes "ports_list ports pr = Inr pl"
    and "returned (scan_ports w host ports pr mw) = Inr r"
  shows "distinct (errors r)
    \<and> (\<forall>e \<in> set (errors r). \<exists>f \<in> set (futures pl). \<not> opened w f \<and>
          (\<exists>txt. error_text w f = Some txt \<and> txt \<noteq> [] \<and>
                 e = ''port '' @ decimal (snd f) @ '': '' @ txt))
    \<and> errors_after_loop w pl = List.map_filter (message w) (as_completed w (futures pl))
    \<and> set (errors r) = set (errors_after_loop w pl)
    \<and> (\<forall>i j. i < j \<and> j < length (errors r) \<longrightarrow>
          first_index (errors_after_loop w pl) (errors r ! i)
            < first_index (errors_after_loop w pl) (errors r ! j))"
proof -
  have e: "errors r = dict_fromkeys (errors_after_loop w pl)"
    by (simp add: scan_ports_result(1) [OF assms])
  have fs: "first_seen (errors_after_loop w pl) (errors r)"
    unfolding e by (rule first_seen_dict_fromkeys)
  then have d: "distinct (errors r)" and s: "set (errors r) = set (errors_after_loop w pl)"
    by (simp_all add: first_seen_def)
  have p: "\<forall>e \<in> set (errors r). \<exists>f \<in> set (futures pl). \<not> opened w f \<and>
          (\<exists>txt. error_text w f = Some txt \<and> txt \<noteq> [] \<and>
                 e = ''port '' @ decimal (snd f) @ '': '' @ txt)"
  proof
    fix e assume "e \<in> set (errors r)"
    with s obtain f where "f \<in> set (futures pl)" and "message w f = Some e"
      by (auto simp: scan_ports_result(2) [OF assms] set_map_filter_eq set_as_completed)
    with message_provenance [of w f e] show "\<exists>f \<in> set (futures pl). \<not> opened w f \<and>
          (\<exists>txt. error_text w f = Some txt \<and> txt \<noteq> [] \<and>
                 e = ''port '' @ decimal (snd f) @ '': '' @ txt)"
      by blast
  qed
  have i: "\<forall>i j. i < j \<and> j < length (errors r) \<longrightarrow>
          first_index (errors_after_loop w pl) (errors r ! i)
            < first_index (errors_after_loop w pl) (errors r ! j)"
    using first_seen_index [OF fs] by blast
  from d p s i scan_ports_result(2) [OF assms] show ?thesis by blast
qed

theorem errors_deduplicated_witness:
  "ports_list (Some [PyInt 8, PyInt 9, PyInt 8, PyInt 9, PyInt 8]) None = Inr [8, 9, 8, 9, 8]
   \<and> returned (scan_ports machinery_fails ''10.0.0.1''
         (Some [PyInt 8, PyInt 9, PyInt 8, PyInt 9, PyInt 8]) None 5) =
       Inr \<lparr>target = ''10.0.0.1'', open_ports = [8], closed_or_filtered = [8, 8, 9, 9],
            errors = [''port 8: timed out'', ''port 9: timed out'',
                      ''port 8: unexpected error cancelled'']\<rparr>
   \<and> errors_after_loop machinery_fails [8, 9, 8, 9, 8] =
       [''port 8: timed out'', ''port 9: timed out'',
        ''port 8: unexpected error cancelled'', ''port 9: timed out'']
   \<and> distinct [''port 8: timed out'', ''port 9: timed out'',
                 ''port 8: unexpected error cancelled'']
   \<and> (2, 8) \<in> set (futures [8, 9, 8, 9, 8]) \<and> \<not> opened machinery_fails (2, 8)
   \<and> error_text machinery_fails (2, 8) = Some ''unexpected error cancelled''
   \<and> first_index (errors_after_loop machinery_fails [8, 9, 8, 9, 8]) ''port 9: timed out''
       < first_index (errors_after_loop machinery_fails [8, 9, 8, 9, 8])
           ''port 8: unexpected error cancelled''"
proof -
  have h1: "ports_list (Some [PyInt 8, PyInt 9, PyInt 8, PyInt 9, PyInt 8]) None = Inr [8, 9, 8, 9, 8]"
    by code_simp
  have h2: "returned (scan_ports machinery_fails ''10.0.0.1''
         (Some [PyInt 8, PyInt 9, PyInt 8, PyInt 9, PyInt 8]) None 5) =
       Inr \<lparr>target = ''10.0.0.1'', open_ports = [8], closed_or_filtered = [8, 8, 9, 9],
            errors = [''port 8: timed out'', ''port 9: timed out'',
                      ''port 8: unexpected error cancelled'']\<rparr>"
    by code_simp
  have h3: "errors_after_loop machinery_fails [8, 9, 8, 9, 8] =
       [''port 8: timed out'', ''port 9: timed out'',
        ''port 8: unexpected error cancelled'', ''port 9: timed out'']"
    by code_simp
  have h4: "(2, 8) \<in> set (futures [8, 9, 8, 9, 8]) \<and> \<not> opened machinery_fails (2, 8)
     \<and> error_text machinery_fails (2, 8) = Some ''unexpected error cancelled''"
    by code_simp
  from errors_deduplicated [OF h1 h2] have
    "distinct (errors \<lparr>target = ''10.0.0.1'', open_ports = [8], closed_or_filtered = [8, 8, 9, 9],
            errors = [''port 8: timed out'', ''port 9: timed out'',
                      ''port 8: unexpected error cancelled'']\<rparr>)"
    and "\<forall>i j. i < j \<and> j < length (errors \<lparr>target = ''10.0.0.1'', open_ports = [8],
            closed_or_filtered = [8, 8, 9, 9],
            errors = [''port 8: timed out'', ''port 9: timed out'',
                      ''port 8: unexpected error cancelled'']\<rparr>) \<longrightarrow>
          first_index (errors_after_loop machinery_fails [8, 9, 8, 9, 8])
             (errors \<lparr>target = ''10.0.0.1'', open_ports = [8],
            closed_or_filtered = [8, 8, 9, 9],
            errors = [''port 8: timed out'', ''port 9: timed out'',
                      ''port 8: unexpected error cancelled'']\<rparr> ! i)
            < first_index (errors_after_loop machinery_fails [8, 9, 8, 9, 8])
             (errors \<lparr>target = ''10.0.0.1'', open_ports = [8],
            closed_or_filtered = [8, 8, 9, 9],
            errors = [''port 8: timed out'', ''port 9: timed out'',
                      ''port 8: unexpected error cancelled'']\<rparr> ! j)"
    by blast+
  then have d: "distinct [''port 8: timed out'', ''port 9: timed out'',
                 ''port 8: unexpected error cancelled'']"
    and "\<forall>i j. i < j \<and> j < 3 \<longrightarrow>
          first_index (errors_after_loop machinery_fails [8, 9, 8, 9, 8])
             ([''port 8: timed out'', ''port 9: timed out'',
                      ''port 8: unexpected error cancelled''] ! i)
            < first_index (errors_after_loop machinery_fails [8, 9, 8, 9, 8])
             ([''port 8: timed out'', ''port 9: timed out'',
                      ''port 8: unexpected error cancelled''] ! j)"
    by simp_all
  from this(2) [rule_format, of 1 2] have
    i: "first_index (errors_after_loop machinery_fails [8, 9, 8, 9, 8]) ''port 9: timed out''
       < first_index (errors_after_loop machinery_fails [8, 9, 8, 9, 8])
           ''port 8: unexpected error cancelled''"
    by simp
  from h1 h2 h3 h4 d i show ?thesis by blast
qed

subsection \<open>C6: \<^verbatim>\<open>ports\<close> takes precedence over \<^verbatim>\<open>port_range\<close>\<close>

text \<open>
  C6: when \<^verbatim>\<open>ports\<close> is supplied the call does not depend on \<^verbatim>\<open>port_range\<close>: it is
  the call made without a range, its bounds are never checked (the call never raises the
  range's \<^verbatim>\<open>ValueError\<close>), and exactly the entries of \<^verbatim>\<open>ports\<close> are submitted as
  probes (for a positive \<^verbatim>\<open>max_workers\<close> and worker threads that start).
\<close>

theorem ports_take_precedence:
  "scan_ports w host (Some ps) pr mw = scan_ports w host (Some ps) None mw
   \<and> returned (scan_ports w host (Some ps) pr mw)
       \<noteq> Inl (ValueError ''invalid port_range; ports must be between 1 and 65535'')
   \<and> (0 < mw \<and> threads_start w (length ns) \<longrightarrow>
        submitted (scan_ports w host (Some (map PyInt ns)) pr mw) = ns)"
proof -
  let ?m = "''invalid port_range; ports must be between 1 and 65535''"
  have a: "scan_ports w host (Some ps) pr mw = scan_ports w host (Some ps) None mw"
    by (simp add: scan_ports_def ports_list_explicit)
  have i: "int_all ps \<noteq> Inl (ValueError m)" for m
    by (induction ps) (auto simp: py_int_def split: pyval.splits option.splits sum.splits)
  have x: "exceeds_limit \<noteq> ?m" by (simp add: exceeds_limit_def)
  have h: "handler t p exc \<noteq> Inl (ValueError ?m)" for t p exc
    using x by (auto simp: handler_def split: option.splits)
  have c1: "consume w t f \<noteq> Inl (ValueError ?m)" for t f
    using h by (cases f) (auto simp: consume_def split: sum.splits option.splits)
  have l: "consume_all w t fs \<noteq> Inl (ValueError ?m)" for t fs
    using c1 by (induction fs arbitrary: t) (auto split: sum.splits)
  have b: "returned (scan_ports w host (Some ps) pr mw) \<noteq> Inl (ValueError ?m)"
    using i l by (auto simp: scan_ports_def ports_list_explicit split: sum.splits option.splits)
  have c: "submitted (scan_ports w host (Some (map PyInt ns)) pr mw) = ns"
    if "0 < mw" and "threads_start w (length ns)"
    using ports_list_ints that by (rule scan_ports_submitted)
  from a b c show ?thesis by blast
qed

theorem ports_take_precedence_witness:
  "(0::int) < 200 \<and> threads_start all_refused (length [22::int, 80])
   \<and> submitted (scan_ports all_refused ''10.0.0.1'' (Some (map PyInt [22, 80])) (Some (100, 50)) 200)
       = [22, 80]"
proof -
  have h: "threads_start all_refused (length [22::int, 80])" by code_simp
  from ports_take_precedence [where w = all_refused and host = "''10.0.0.1''" and ps = "[]"
      and pr = "Some (100, 50)" and mw = 200 and ns = "[22, 80]"] h
  show ?thesis by simp
qed

subsection \<open>C7: explicit ports are not range-checked\<close>

text \<open>
  C7, as stated: for every explicit list of integers every supplied value is accepted,
  submitted as a probe and found in the result partition. The last part fails for a value
  of more than 4300 digits: \<^verbatim>\<open>ports=[10**4300]\<close> passes line 99 and is submitted, but
  \<^verbatim>\<open>connect\<close> rejects the port, the f-strings of lines 133 and 137 cannot format it,
  and the call raises \<^verbatim>\<open>ValueError\<close>: there is no result.
\<close>

theorem explicit_ports_counterexample:
  "ports_list (Some [PyInt huge]) None = Inr [huge]
   \<and> scan_ports port_rejected ''10.0.0.1'' (Some [PyInt huge]) None 200 =
       \<lparr>submitted = [huge], returned = Inl (ValueError exceeds_limit)\<rparr>"
proof -
  have d: "ports_list (Some [PyInt huge]) None = Inr [huge]"
    by (simp add: ports_list_def py_int_def)
  have et: "error_text port_rejected (0, huge) = Some ''connect(): port must be 0-65535.''"
    by (simp add: error_text_def port_rejected_def)
  have ne: "''connect(): port must be 0-65535.'' \<noteq> []" by simp
  have "consume port_rejected empty_tally (0, huge) = Inl (ValueError exceeds_limit)"
    using huge_not_printable et ne by (rule unprintable_port_raises)
  then have "scan_ports port_rejected ''10.0.0.1'' (Some [PyInt huge]) None 200 =
       \<lparr>submitted = [huge], returned = Inl (ValueError exceeds_limit)\<rparr>"
    by (simp add: scan_ports_def d futures_def as_completed_def port_rejected_def)
  with d show ?thesis by simp
qed

text \<open>
  C7, amended: for every explicit list of integers, whatever their values, the
  validation raises nothing and (with a positive \<^verbatim>\<open>max_workers\<close> and worker threads
  that start) every value is submitted as a probe; the union of the two lists of every
  returned result is the set of the supplied values; and a result is returned when every
  value has at most 4300 digits.
\<close>

theorem explicit_ports_not_range_checked:
  "ports_list (Some (map PyInt ns)) pr = Inr ns
   \<and> (0 < mw \<and> threads_start w (length ns) \<longrightarrow>
        submitted (scan_ports w host (Some (map PyInt ns)) pr mw) = ns)
   \<and> (\<forall>r. returned (scan_ports w host (Some (map PyInt ns)) pr mw) = Inr r \<longrightarrow>
        set (open_ports r) \<union> set (closed_or_filtered r) = set ns)
   \<and> (0 < mw \<and> threads_start w (length ns) \<and> (\<forall>n \<in> set ns. printable n) \<longrightarrow>
        (\<exists>r. returned (scan_ports w host (Some (map PyInt ns)) pr mw) = Inr r))"
proof -
  note pl = ports_list_ints [of ns pr]
  have s: "submitted (scan_ports w host (Some (map PyInt ns)) pr mw) = ns"
    if "0 < mw" and "threads_start w (length ns)"
    using pl that by (rule scan_ports_submitted)
  have u: "set (open_ports r) \<union> set (closed_or_filtered r) = set ns"
    if r: "returned (scan_ports w host (Some (map PyInt ns)) pr mw) = Inr r" for r
  proof -
    from result_mset [OF pl r] have "mset (open_ports r @ closed_or_filtered r) = mset ns"
      by simp
    then have "set (open_ports r @ closed_or_filtered r) = set ns" by (rule mset_eq_setD)
    then show ?thesis by simp
  qed
  have t: "\<exists>r. returned (scan_ports w host (Some (map PyInt ns)) pr mw) = Inr r"
    if "0 < mw" and "threads_start w (length ns)" and "\<forall>n \<in> set ns. printable n"
    using pl that by (rule scan_ports_returns)
  from pl s u t show ?thesis by blast
qed

theorem explicit_ports_not_range_checked_witness:
  "ports_list (Some (map PyInt [70000, - 5])) None = Inr [70000, - 5]
   \<and> (0::int) < 200 \<and> threads_start port_rejected (length [70000::int, - 5])
   \<and> printable 70000 \<and> printable (- 5)
   \<and> submitted (scan_ports port_rejected ''10.0.0.1'' (Some (map PyInt [70000, - 5])) None 200)
       = [70000, - 5]
   \<and> (\<exists>r. returned (scan_ports port_rejected ''10.0.0.1'' (Some (map PyInt [70000, - 5])) None 200)
            = Inr r
          \<and> set (open_ports r) \<union> set (closed_or_filtered r) = set [70000, - 5])"
proof -
  have h1: "(0::int) < 200" by simp
  have h2: "threads_start port_rejected (length [70000::int, - 5])" by code_simp
  have h3: "printable 70000 \<and> printable (- 5)"
    by (simp add: port_printable)
  then have h4: "\<forall>n \<in> set [70000::int, - 5]. printable n" by simp
  from explicit_ports_not_range_checked [where w = port_rejected and host = "''10.0.0.1''"
      and ns = "[70000, - 5]" and pr = None and mw = 200] h1 h2 h3 h4
  show ?thesis by blast
qed

subsection \<open>C8: duplicates in an explicit list\<close>



subsection \<open>C9: \<^verbatim>\<open>get_network_configs\<close>\<close>

text \<open>
  C9, as stated: the status is \<^verbatim>\<open>success\<close> whenever the command starts and runs,
  whatever its exit code. It fails when the captured output is not text in the locale's
  encoding: \<^verbatim>\<open>text=True\<close> on line 29 makes \<^verbatim>\<open>subprocess.run\<close> decode it, the codec
  raises \<^verbatim>\<open>UnicodeDecodeError\<close>, and line 32 returns the status \<^verbatim>\<open>error\<close> for a
  command that ran and exited with 0. The byte \<^verbatim>\<open>0xff\<close> is no UTF-8.
\<close>

theorem undecodable_output_counterexample:
  "utf8 [CHR 0xFF] = None
   \<and> get_network_configs utf8 (Exited 0 [CHR 0xFF] []) =
       \<lparr>status = ''error'', network_configs = Text_of_UnicodeDecodeError\<rparr>
   \<and> status (get_network_configs utf8 (Exited 0 [CHR 0xFF] [])) \<noteq> ''success''"
  by code_simp

text \<open>
  C9, amended: when the command starts and runs and both captured streams can be decoded
  in the locale's encoding, \<^verbatim>\<open>get_network_configs\<close> returns the status \<^verbatim>\<open>success\<close>
  with the decoded standard output (\<^verbatim>\<open>\r\n\<close> and \<^verbatim>\<open>\r\<close> turned into \<^verbatim>\<open>\n\<close>),
  whatever the exit code; when a stream cannot be decoded, or the command cannot be
  started, it returns the status \<^verbatim>\<open>error\<close> with the text of the exception, and raises
  nothing.
\<close>

theorem network_configs_status:
  "(codec out = Some tout \<and> codec err = Some terr \<longrightarrow>
      get_network_configs codec (Exited rc out err) =
        \<lparr>status = ''success'', network_configs = Text (translate_newlines tout)\<rparr>)
   \<and> (codec out = None \<or> codec err = None \<longrightarrow>
      get_network_configs codec (Exited rc out err) =
        \<lparr>status = ''error'', network_configs = Text_of_UnicodeDecodeError\<rparr>)
   \<and> get_network_configs codec (Cannot_start txt) =
        \<lparr>status = ''error'', network_configs = Text txt\<rparr>"
proof -
  have a: "get_network_configs codec (Exited rc out err) =
        \<lparr>status = ''success'', network_configs = Text (translate_newlines tout)\<rparr>"
    if "codec out = Some tout" and "codec err = Some terr"
    using that by (simp add: get_network_configs_def subprocess_run_def)
  have b: "get_network_configs codec (Exited rc out err) =
        \<lparr>status = ''error'', network_configs = Text_of_UnicodeDecodeError\<rparr>"
    if "codec out = None \<or> codec err = None"
    using that
    by (auto simp: get_network_configs_def subprocess_run_def str_of_def split: option.splits)
  have c: "get_network_configs codec (Cannot_start txt) =
        \<lparr>status = ''error'', network_configs = Text txt\<rparr>"
    by (simp add: get_network_configs_def subprocess_run_def str_of_def)
  from a b c show ?thesis by blast
qed

theorem network_configs_status_witness:
  "utf8 [CHR ''l'', CHR ''o'', CHR 0x0D, CHR 0x0A] = Some [108, 111, 13, 10]
   \<and> utf8 ''no such interface'' = Some (map of_char ''no such interface'')
   \<and> get_network_configs utf8
         (Exited 1 [CHR ''l'', CHR ''o'', CHR 0x0D, CHR 0x0A] ''no such interface'') =
        \<lparr>status = ''success'', network_configs = Text [108, 111, 10]\<rparr>
   \<and> utf8 [CHR 0xFF] = None
   \<and> get_network_configs utf8 (Exited 0 ''lo'' [CHR 0xFF]) =
        \<lparr>status = ''error'', network_configs = Text_of_UnicodeDecodeError\<rparr>"
proof -
  have h1: "utf8 [CHR ''l'', CHR ''o'', CHR 0x0D, CHR 0x0A] = Some [108, 111, 13, 10]"
    by code_simp
  have h2: "utf8 ''no such interface'' = Some (map of_char ''no such interface'')"
    by code_simp
  have h3: "utf8 [CHR 0xFF] = None" by code_simp
  have t: "translate_newlines [108, 111, 13, 10] = [108, 111, 10]" by code_simp
  from network_configs_status [where codec = utf8 and rc = 1
      and out = "[CHR ''l'', CHR ''o'', CHR 0x0D, CHR 0x0A]" and err = "''no such interface''"
      and tout = "[108, 111, 13, 10]" and terr = "map of_char ''no such interface''"] h1 h2 t
  have a: "get_network_configs utf8
         (Exited 1 [CHR ''l'', CHR ''o'', CHR 0x0D, CHR 0x0A] ''no such interface'') =
        \<lparr>status = ''success'', network_configs = Text [108, 111, 10]\<rparr>"
    by simp
  from network_configs_status [where codec = utf8 and rc = 0 and out = "''lo''"
      and err = "[CHR 0xFF]"] h3
  have b: "get_network_configs utf8 (Exited 0 ''lo'' [CHR 0xFF]) =
        \<lparr>status = ''error'', network_configs = Text_of_UnicodeDecodeError\<rparr>"
    by simp
  from h1 h2 h3 a b show ?thesis by simp
qed

subsection \<open>C10: an element that is no integer\<close>

text \<open>
  C10: when some element of \<^verbatim>\<open>ports\<close> cannot be coerced by \<^verbatim>\<open>int\<close>, the call raises
  the exception of the coercion of such an element (the \<^verbatim>\<open>ValueError\<close> of a string
  that \<^verbatim>\<open>int\<close> does not read, or the \<^verbatim>\<open>TypeError\<close> of \<^verbatim>\<open>None\<close>) with no probe
  submitted; this is neither of the two \<^verbatim>\<open>ValueError\<close>s of the validation.
\<close>

theorem uncoercible_port_raises:
  assumes "v \<in> set ps" and "py_int v = Inl e"
  shows "\<exists>e'. scan_ports w host (Some ps) pr mw = \<lparr>submitted = [], returned = Inl e'\<rparr>
    \<and> ((\<exists>s. PyStr s \<in> set ps \<and> int_literal s = None \<and> e' = ValueError_of_int s)
       \<or> (PyNone \<in> set ps \<and> e' = TypeError_of_int))
    \<and> e' \<noteq> ValueError ''either 'ports' or 'port_range' must be provided''
    \<and> e' \<noteq> ValueError ''invalid port_range; ports must be between 1 and 65535''"
proof -
  from int_all_fails [OF assms] obtain u e' where
    u: "u \<in> set ps" and pe: "py_int u = Inl e'" and ia: "int_all ps = Inl e'"
    by blast
  from ia have "scan_ports w host (Some ps) pr mw = \<lparr>submitted = [], returned = Inl e'\<rparr>"
    by (simp add: scan_ports_def ports_list_explicit)
  moreover from py_int_error [OF pe] u
  have "(\<exists>s. PyStr s \<in> set ps \<and> int_literal s = None \<and> e' = ValueError_of_int s)
       \<or> (PyNone \<in> set ps \<and> e' = TypeError_of_int)"
    by auto
  ultimately show ?thesis by auto
qed

theorem uncoercible_port_raises_witness:
  "PyStr ''http'' \<in> set [PyInt 80, PyStr ''http'', PyNone]
   \<and> py_int (PyStr ''http'') = Inl (ValueError_of_int ''http'')
   \<and> scan_ports all_refused ''10.0.0.1'' (Some [PyInt 80, PyStr ''http'', PyNone]) None 200
       = \<lparr>submitted = [], returned = Inl (ValueError_of_int ''http'')\<rparr>"
proof -
  have h1: "PyStr ''http'' \<in> set [PyInt 80, PyStr ''http'', PyNone]" by simp
  have h2: "py_int (PyStr ''http'') = Inl (ValueError_of_int ''http'')" by code_simp
  have h3: "scan_ports all_refused ''10.0.0.1'' (Some [PyInt 80, PyStr ''http'', PyNone]) None 200
       = \<lparr>submitted = [], returned = Inl (ValueError_of_int ''http'')\<rparr>"
    by code_simp
  from uncoercible_port_raises [OF h1 h2, of all_refused "''10.0.0.1''" None 200] h1 h2 h3
  show ?thesis by blast
qed
end
